theory Spec2Isabelle
  imports Complex_Main "HOL-Library.AList"
begin

section \<open>Data model\<close>

text \<open>
  The program works on pandas DataFrames. A frame is modelled as pandas stores it: a
  row index and an ordered list of columns, each column with a name, a dtype and one
  cell per row. The frames covered are the ones \<^verbatim>\<open>pd.read_csv\<close> builds: a column is
  numeric (int64 or float64, a missing entry is NaN), boolean (no missing entries) or of
  dtype object (strings, or the booleans of a boolean column that has missing entries;
  a missing entry is NaN). Numbers are finite and exact: rounding, overflow and
  infinities are outside the model.
\<close>

datatype dtype = Number | Boolean | Object

datatype cell = Num real | Str string | Bool bool | Missing

record Series =
  s_name :: string
  s_dtype :: dtype
  s_values :: "cell list"

record DataFrame =
  df_index :: "nat list"
  df_columns :: "Series list"

text \<open>The value of a Python float: a finite number or NaN.\<close>

datatype pyfloat = Fin real | NaN

datatype error = AttributeError | KeyError | ValueError | GraphRecursionError

text \<open>The dictionaries the agents return, as records. A dictionary keyed by column
  names is an association list in insertion order.\<close>

record CleaningMetadata =
  original_rows :: nat
  cleaned_rows :: nat
  rows_removed :: int
  columns :: "string list"
  dtypes :: "(string \<times> dtype) list"

record ValidationReport =
  total_rows :: nat
  total_columns :: nat
  missing_values :: "(string \<times> nat) list"
  duplicate_rows :: nat
  numeric_columns :: "string list"
  categorical_columns :: "string list"

record ColumnStats =
  st_mean :: pyfloat
  st_median :: pyfloat
  st_std :: pyfloat
  st_min :: pyfloat
  st_max :: pyfloat

type_synonym corr_dict = "(string \<times> (string \<times> pyfloat) list) list"

text \<open>The \<^verbatim>\<open>"summary"\<close> entry of the statistics (\<^verbatim>\<open>df.describe().to_dict()\<close>) is not
  part of the record: only the failure of \<^verbatim>\<open>describe\<close> on a frame without columns is
  modelled.\<close>

record Statistics =
  correlations :: corr_dict
  numeric_columns_stats :: "(string \<times> ColumnStats) list"

record OutlierInfo =
  o_count :: int
  o_percentage :: pyfloat
  o_lower :: pyfloat
  o_upper :: pyfloat

record Visualizations =
  distributions :: "(string \<times> string) list"
  correlation_heatmap :: "string option"

text \<open>What the visualizer writes to a file: the data each artifact is drawn from, not
  the bytes of the image.\<close>

datatype artifact =
    DistributionPlot "cell list"
  | CorrelationHeatmap corr_dict
  | SummaryReport "string list" "(string \<times> ColumnStats) list"

text \<open>Well-formed frames: every column has one cell per row, column names are unique
  and the cells of a column fit its dtype.\<close>

fun cell_fits :: "dtype \<Rightarrow> cell \<Rightarrow> bool" where
  "cell_fits Number (Num r) = True"
| "cell_fits Number Missing = True"
| "cell_fits Boolean (Bool b) = True"
| "cell_fits Object (Str s) = True"
| "cell_fits Object (Bool b) = True"
| "cell_fits Object Missing = True"
| "cell_fits t c = False"

definition wf_series :: "nat \<Rightarrow> Series \<Rightarrow> bool" where
  "wf_series n s = (length (s_values s) = n \<and> list_all (cell_fits (s_dtype s)) (s_values s))"

definition wf_frame :: "DataFrame \<Rightarrow> bool" where
  "wf_frame df =
     (list_all (wf_series (length (df_index df))) (df_columns df)
      \<and> distinct (map s_name (df_columns df)))"

section \<open>The pandas operations the program calls\<close>

text \<open>\<^verbatim>\<open>len(df)\<close> and \<^verbatim>\<open>len(df.columns)\<close>.\<close>

definition len :: "DataFrame \<Rightarrow> nat" where
  "len df = length (df_index df)"

definition column_names :: "DataFrame \<Rightarrow> string list" where
  "column_names df = map s_name (df_columns df)"

text \<open>\<^verbatim>\<open>df.empty\<close>: one of the two axes has length 0.\<close>

definition empty_frame :: "DataFrame \<Rightarrow> bool" where
  "empty_frame df = (df_index df = [] \<or> df_columns df = [])"

text \<open>The rows of a frame, read off its columns (\<open>n\<close> is the number of rows).\<close>

fun rows_of :: "nat \<Rightarrow> cell list list \<Rightarrow> cell list list" where
  "rows_of 0 cols = []"
| "rows_of (Suc n) cols = map hd cols # rows_of n (map tl cols)"

definition frame_rows :: "DataFrame \<Rightarrow> cell list list" where
  "frame_rows df = rows_of (len df) (map s_values (df_columns df))"

text \<open>Boolean indexing \<^verbatim>\<open>df[mask]\<close>: the rows whose mask is true are kept, with their
  index labels, in their order.\<close>

fun keep_mask :: "bool list \<Rightarrow> 'a list \<Rightarrow> 'a list" where
  "keep_mask (b # bs) (x # xs) = (if b then x # keep_mask bs xs else keep_mask bs xs)"
| "keep_mask bs xs = []"

definition select_rows :: "bool list \<Rightarrow> DataFrame \<Rightarrow> DataFrame" where
  "select_rows keep df =
     \<lparr>df_index = keep_mask keep (df_index df),
      df_columns = map (\<lambda>s. s\<lparr>s_values := keep_mask keep (s_values s)\<rparr>) (df_columns df)\<rparr>"

text \<open>\<^verbatim>\<open>df.duplicated()\<close> (keep='first'): a row is marked when an equal row comes
  earlier; two missing cells count as equal. An empty frame gives an empty mask.\<close>

fun duplicated_from :: "cell list list \<Rightarrow> cell list list \<Rightarrow> bool list" where
  "duplicated_from seen [] = []"
| "duplicated_from seen (r # rs) = (r \<in> set seen) # duplicated_from (seen @ [r]) rs"

definition duplicated :: "DataFrame \<Rightarrow> bool list" where
  "duplicated df = (if empty_frame df then [] else duplicated_from [] (frame_rows df))"

text \<open>\<^verbatim>\<open>df.drop_duplicates()\<close>: an empty frame is returned as a copy; otherwise the
  rows not marked by \<open>duplicated\<close> are kept.\<close>

definition drop_duplicates :: "DataFrame \<Rightarrow> DataFrame" where
  "drop_duplicates df =
     (if empty_frame df then df else select_rows (map Not (duplicated df)) df)"

text \<open>\<^verbatim>\<open>df.dropna()\<close>: the rows with a missing cell in any column are dropped.\<close>

definition dropna :: "DataFrame \<Rightarrow> DataFrame" where
  "dropna df = select_rows (map (\<lambda>r. Missing \<notin> set r) (frame_rows df)) df"

text \<open>\<^verbatim>\<open>df.select_dtypes(include=[t]).columns\<close>: the names of the columns of that
  dtype, in column order (\<open>'number'\<close> is \<open>Number\<close>, \<open>'object'\<close> is \<open>Object\<close>).\<close>

definition select_dtypes :: "dtype \<Rightarrow> DataFrame \<Rightarrow> string list" where
  "select_dtypes t df = map s_name (filter (\<lambda>s. s_dtype s = t) (df_columns df))"

text \<open>\<^verbatim>\<open>df[col]\<close>: the column of that name; KeyError when there is none.\<close>

definition getitem :: "DataFrame \<Rightarrow> string \<Rightarrow> error + Series" where
  "getitem df col =
     (case find (\<lambda>s. s_name s = col) (df_columns df) of
        None \<Rightarrow> Inl KeyError
      | Some s \<Rightarrow> Inr s)"

text \<open>\<^verbatim>\<open>df[col] = series\<close>: the column of that name is replaced where it stands; a new
  name is added as the last column. The frame object itself is updated.\<close>

fun set_column :: "string \<Rightarrow> Series \<Rightarrow> Series list \<Rightarrow> Series list" where
  "set_column col v [] = [v\<lparr>s_name := col\<rparr>]"
| "set_column col v (s # ss) =
     (if s_name s = col then v\<lparr>s_name := col\<rparr> # ss else s # set_column col v ss)"

definition setitem :: "DataFrame \<Rightarrow> string \<Rightarrow> Series \<Rightarrow> DataFrame" where
  "setitem df col v = df\<lparr>df_columns := set_column col v (df_columns df)\<rparr>"

text \<open>Python's \<^verbatim>\<open>str.strip()\<close> on ASCII text: leading and trailing whitespace
  (tab, newline, vertical tab, form feed, carriage return, the separators 28 to 31 and
  the space) is removed.\<close>

definition is_space :: "char \<Rightarrow> bool" where
  "is_space c = (let n = (of_char c :: nat) in (9 \<le> n \<and> n \<le> 13) \<or> (28 \<le> n \<and> n \<le> 32))"

definition strip :: "string \<Rightarrow> string" where
  "strip s = rev (dropWhile is_space (rev (dropWhile is_space s)))"

text \<open>\<^verbatim>\<open>series.str.strip()\<close>. The \<^verbatim>\<open>.str\<close> accessor raises AttributeError unless the
  values that are present are strings, a mix with strings, or there are none. A string is
  stripped, a missing entry stays missing and any other value becomes NaN.\<close>

fun is_Str :: "cell \<Rightarrow> bool" where
  "is_Str (Str s) = True"
| "is_Str c = False"

definition str_accessor_ok :: "cell list \<Rightarrow> bool" where
  "str_accessor_ok vs =
     (let present = filter (\<lambda>c. c \<noteq> Missing) vs
      in present = [] \<or> list_ex is_Str present)"

fun strip_cell :: "cell \<Rightarrow> cell" where
  "strip_cell (Str s) = Str (strip s)"
| "strip_cell c = Missing"

definition str_strip :: "Series \<Rightarrow> error + Series" where
  "str_strip s =
     (if str_accessor_ok (s_values s)
      then Inr (s\<lparr>s_dtype := Object, s_values := map strip_cell (s_values s)\<rparr>)
      else Inl AttributeError)"

section \<open>Objects and references\<close>

text \<open>
  Python variables and dictionary entries hold references. The frames and the lists of
  log messages live in a store and are named by their address; the files written by the
  visualizer are part of the same record. A pandas operation that returns a frame
  allocates a new object; \<^verbatim>\<open>df[col] = ...\<close> and \<^verbatim>\<open>list.append\<close> update the object
  they are applied to.
\<close>

type_synonym ref = nat

record world =
  frames :: "DataFrame list"
  pylists :: "string list list"
  files :: "(string \<times> artifact) list"

definition frame_at :: "world \<Rightarrow> ref \<Rightarrow> DataFrame" where
  "frame_at w r = frames w ! r"

definition new_frame :: "world \<Rightarrow> DataFrame \<Rightarrow> world \<times> ref" where
  "new_frame w df = (w\<lparr>frames := frames w @ [df]\<rparr>, length (frames w))"

definition update_frame :: "world \<Rightarrow> ref \<Rightarrow> DataFrame \<Rightarrow> world" where
  "update_frame w r df = w\<lparr>frames := (frames w)[r := df]\<rparr>"

definition list_at :: "world \<Rightarrow> ref \<Rightarrow> string list" where
  "list_at w r = pylists w ! r"

definition new_list :: "world \<Rightarrow> string list \<Rightarrow> world \<times> ref" where
  "new_list w xs = (w\<lparr>pylists := pylists w @ [xs]\<rparr>, length (pylists w))"

definition list_append :: "world \<Rightarrow> ref \<Rightarrow> string \<Rightarrow> world" where
  "list_append w r x = w\<lparr>pylists := (pylists w)[r := pylists w ! r @ [x]]\<rparr>"

section \<open>CleanerAgent\<close>

record CleaningResult =
  cr_cleaned_data :: ref
  cr_metadata :: CleaningMetadata

text \<open>The loop \<^verbatim>\<open>for col in str_cols: df[col] = df[col].str.strip()\<close> on the frame
  object \<open>df\<close>.\<close>

fun strip_columns :: "world \<Rightarrow> ref \<Rightarrow> string list \<Rightarrow> error + world" where
  "strip_columns w df [] = Inr w"
| "strip_columns w df (col # cols) =
     (case getitem (frame_at w df) col of
        Inl e \<Rightarrow> Inl e
      | Inr s \<Rightarrow>
          (case str_strip s of
             Inl e \<Rightarrow> Inl e
           | Inr stripped \<Rightarrow>
               strip_columns (update_frame w df (setitem (frame_at w df) col stripped)) df cols))"

text \<open>\<^verbatim>\<open>clean_data(df)\<close>: the parameter is rebound to the new frame each pandas call
  returns, so the columns are assigned on the frame \<^verbatim>\<open>dropna\<close> returned.\<close>

definition clean_data :: "world \<Rightarrow> ref \<Rightarrow> error + world \<times> CleaningResult" where
  "clean_data w df0 =
     (let original = len (frame_at w df0);
          (w1, df1) = new_frame w (drop_duplicates (frame_at w df0));
          (w2, df2) = new_frame w1 (dropna (frame_at w1 df1));
          str_cols = select_dtypes Object (frame_at w2 df2)
      in case strip_columns w2 df2 str_cols of
           Inl e \<Rightarrow> Inl e
         | Inr w3 \<Rightarrow>
             (let cleaned = len (frame_at w3 df2)
              in Inr (w3,
                   \<lparr>cr_cleaned_data = df2,
                    cr_metadata =
                      \<lparr>original_rows = original,
                       cleaned_rows = cleaned,
                       rows_removed = int original - int cleaned,
                       columns = column_names (frame_at w3 df2),
                       dtypes = map (\<lambda>s. (s_name s, s_dtype s)) (df_columns (frame_at w3 df2))\<rparr>\<rparr>)))"

text \<open>\<^verbatim>\<open>validate_data(df)\<close> reads the frame only.\<close>

definition isnull_sum :: "DataFrame \<Rightarrow> (string \<times> nat) list" where
  "isnull_sum df =
     map (\<lambda>s. (s_name s, length (filter (\<lambda>c. c = Missing) (s_values s)))) (df_columns df)"

definition validate_data :: "DataFrame \<Rightarrow> ValidationReport" where
  "validate_data df =
     \<lparr>total_rows = len df,
      total_columns = length (column_names df),
      missing_values = isnull_sum df,
      duplicate_rows = length (filter id (duplicated df)),
      numeric_columns = select_dtypes Number df,
      categorical_columns = select_dtypes Object df\<rparr>"

section \<open>Text formatting\<close>

text \<open>\<^verbatim>\<open>str(n)\<close> for the integers that the f-strings of the program format.\<close>

definition digit_char :: "nat \<Rightarrow> char" where
  "digit_char d = ''0123456789'' ! d"

fun str_nat :: "nat \<Rightarrow> string" where
  "str_nat n = (if n < 10 then [digit_char n] else str_nat (n div 10) @ [digit_char (n mod 10)])"

declare str_nat.simps [simp del]

definition str_int :: "int \<Rightarrow> string" where
  "str_int i = (if i < 0 then CHR ''-'' # str_nat (nat (- i)) else str_nat (nat i))"

definition quoted :: "string \<Rightarrow> string" where
  "quoted s = CHR 0x27 # s @ [CHR 0x27]"

section \<open>Floats and column statistics\<close>

text \<open>Arithmetic and comparison of floats: NaN propagates through arithmetic and every
  comparison with NaN is false.\<close>

fun fadd :: "pyfloat \<Rightarrow> pyfloat \<Rightarrow> pyfloat" where
  "fadd (Fin a) (Fin b) = Fin (a + b)"
| "fadd a b = NaN"

fun fsub :: "pyfloat \<Rightarrow> pyfloat \<Rightarrow> pyfloat" where
  "fsub (Fin a) (Fin b) = Fin (a - b)"
| "fsub a b = NaN"

fun fmul :: "pyfloat \<Rightarrow> pyfloat \<Rightarrow> pyfloat" where
  "fmul (Fin a) (Fin b) = Fin (a * b)"
| "fmul a b = NaN"

fun flt :: "pyfloat \<Rightarrow> pyfloat \<Rightarrow> bool" where
  "flt (Fin a) (Fin b) = (a < b)"
| "flt a b = False"

definition fgt :: "pyfloat \<Rightarrow> pyfloat \<Rightarrow> bool" where
  "fgt a b = flt b a"

fun fle :: "pyfloat \<Rightarrow> pyfloat \<Rightarrow> bool" where
  "fle (Fin a) (Fin b) = (a \<le> b)"
| "fle a b = False"

text \<open>The value of a cell of a numeric column as a float.\<close>

fun to_float :: "cell \<Rightarrow> pyfloat" where
  "to_float (Num r) = Fin r"
| "to_float c = NaN"

text \<open>The reductions of a numeric Series skip the missing entries.\<close>

fun present :: "cell list \<Rightarrow> real list" where
  "present [] = []"
| "present (Num r # cs) = r # present cs"
| "present (c # cs) = present cs"

definition mean :: "Series \<Rightarrow> pyfloat" where
  "mean s =
     (let xs = present (s_values s)
      in if xs = [] then NaN else Fin (sum_list xs / real (length xs)))"

definition median :: "Series \<Rightarrow> pyfloat" where
  "median s =
     (let xs = sort (present (s_values s)); n = length xs
      in if n = 0 then NaN
         else if odd n then Fin (xs ! (n div 2))
         else Fin ((xs ! (n div 2 - 1) + xs ! (n div 2)) / 2))"

text \<open>\<^verbatim>\<open>std()\<close>: the sample standard deviation (divisor \<open>n - 1\<close>), NaN for fewer than
  two values.\<close>

definition std :: "Series \<Rightarrow> pyfloat" where
  "std s =
     (let xs = present (s_values s); n = length xs
      in if n < 2 then NaN
         else let m = sum_list xs / real n
              in Fin (sqrt (sum_list (map (\<lambda>x. (x - m) ^ 2) xs) / real (n - 1))))"

definition series_min :: "Series \<Rightarrow> pyfloat" where
  "series_min s =
     (let xs = present (s_values s) in if xs = [] then NaN else Fin (Min (set xs)))"

definition series_max :: "Series \<Rightarrow> pyfloat" where
  "series_max s =
     (let xs = present (s_values s) in if xs = [] then NaN else Fin (Max (set xs)))"

text \<open>\<^verbatim>\<open>quantile(q)\<close> with linear interpolation: on the sorted values \<open>xs\<close> the
  position is \<open>(n - 1) * q\<close>, and the result lies between the two values around it.\<close>

definition lerp_at :: "real list \<Rightarrow> real \<Rightarrow> real" where
  "lerp_at xs p =
     (let lo = nat \<lfloor>p\<rfloor>;
          hi = min (lo + 1) (length xs - 1);
          frac = p - real lo
      in xs ! lo + (xs ! hi - xs ! lo) * frac)"

definition quantile :: "Series \<Rightarrow> real \<Rightarrow> pyfloat" where
  "quantile s q =
     (let xs = sort (present (s_values s))
      in if xs = [] then NaN else Fin (lerp_at xs (real (length xs - 1) * q)))"

text \<open>\<^verbatim>\<open>nunique()\<close>: the number of distinct values, missing entries not counted.\<close>

definition nunique :: "Series \<Rightarrow> nat" where
  "nunique s = length (remdups (filter (\<lambda>c. c \<noteq> Missing) (s_values s)))"

text \<open>\<^verbatim>\<open>df[names]\<close>: the columns of these names, in the order of the names.\<close>

fun getitems :: "DataFrame \<Rightarrow> string list \<Rightarrow> error + Series list" where
  "getitems df [] = Inr []"
| "getitems df (col # cols) =
     (case getitem df col of
        Inl e \<Rightarrow> Inl e
      | Inr s \<Rightarrow> (case getitems df cols of Inl e \<Rightarrow> Inl e | Inr ss \<Rightarrow> Inr (s # ss)))"

text \<open>\<^verbatim>\<open>corr()\<close>: Pearson correlation of each pair of columns over the rows where both
  are present. The entry is NaN when there is no such row or when the divisor
  \<open>sqrt (ssx * ssy)\<close> is zero. \<^verbatim>\<open>to_dict()\<close> gives, for each column, the entries of that
  column keyed by the row labels, which are the column names again.\<close>

fun complete_pairs :: "cell list \<Rightarrow> cell list \<Rightarrow> (real \<times> real) list" where
  "complete_pairs (Num x # xs) (Num y # ys) = (x, y) # complete_pairs xs ys"
| "complete_pairs (x # xs) (y # ys) = complete_pairs xs ys"
| "complete_pairs xs ys = []"

definition pearson :: "cell list \<Rightarrow> cell list \<Rightarrow> pyfloat" where
  "pearson xs ys =
     (let ps = complete_pairs xs ys; n = length ps
      in if n = 0 then NaN
         else let mx = sum_list (map fst ps) / real n;
                  my = sum_list (map snd ps) / real n;
                  ssx = sum_list (map (\<lambda>p. (fst p - mx) ^ 2) ps);
                  ssy = sum_list (map (\<lambda>p. (snd p - my) ^ 2) ps);
                  cov = sum_list (map (\<lambda>p. (fst p - mx) * (snd p - my)) ps);
                  divisor = sqrt (ssx * ssy)
              in if divisor \<noteq> 0 then Fin (cov / divisor) else NaN)"

definition corr :: "Series list \<Rightarrow> corr_dict" where
  "corr cols =
     map (\<lambda>c. (s_name c, map (\<lambda>r. (s_name r, pearson (s_values r) (s_values c))) cols)) cols"

text \<open>\<^verbatim>\<open>count / len(df)\<close> with a NumPy integer count: a division by zero does not
  raise. The count is at most the number of rows, so with no rows it is \<open>0 / 0\<close>, NaN.\<close>

definition np_true_divide :: "nat \<Rightarrow> nat \<Rightarrow> pyfloat" where
  "np_true_divide c n = (if n = 0 then NaN else Fin (real c / real n))"

section \<open>AnalystAgent\<close>

text \<open>The loop of \<^verbatim>\<open>compute_statistics\<close> that fills
  \<^verbatim>\<open>stats["numeric_columns_stats"]\<close>.\<close>

fun column_stats_loop ::
  "DataFrame \<Rightarrow> string list \<Rightarrow> (string \<times> ColumnStats) list \<Rightarrow> error + (string \<times> ColumnStats) list"
where
  "column_stats_loop df [] acc = Inr acc"
| "column_stats_loop df (col # cols) acc =
     (case getitem df col of
        Inl e \<Rightarrow> Inl e
      | Inr s \<Rightarrow>
          column_stats_loop df cols
            (AList.update col
               \<lparr>st_mean = mean s, st_median = median s, st_std = std s,
                st_min = series_min s, st_max = series_max s\<rparr> acc))"

text \<open>\<^verbatim>\<open>compute_statistics(df)\<close>. \<^verbatim>\<open>df.describe()\<close> raises ValueError on a frame
  without columns.\<close>

definition compute_statistics :: "DataFrame \<Rightarrow> error + Statistics" where
  "compute_statistics df =
     (let numeric_cols = select_dtypes Number df
      in if df_columns df = [] then Inl ValueError
         else case (if length numeric_cols > 1
                    then (case getitems df numeric_cols of
                            Inl e \<Rightarrow> Inl e
                          | Inr cols \<Rightarrow> Inr (corr cols))
                    else Inr [])
              of Inl e \<Rightarrow> Inl e
               | Inr cm \<Rightarrow>
                   (case column_stats_loop df numeric_cols [] of
                      Inl e \<Rightarrow> Inl e
                    | Inr ncs \<Rightarrow> Inr \<lparr>correlations = cm, numeric_columns_stats = ncs\<rparr>))"



text \<open>The insight strings.\<close>

definition records_insight :: "nat \<Rightarrow> nat \<Rightarrow> string" where
  "records_insight n_rows n_cols =
     ''Dataset contains '' @ str_nat n_rows @ '' records with '' @ str_nat n_cols @ '' features''"

definition right_skew_insight :: "string \<Rightarrow> string" where
  "right_skew_insight col = quoted col @ '' shows right-skewed distribution (mean > median)''"

definition left_skew_insight :: "string \<Rightarrow> string" where
  "left_skew_insight col = quoted col @ '' shows left-skewed distribution (mean < median)''"

definition categories_insight :: "string \<Rightarrow> nat \<Rightarrow> string" where
  "categories_insight col n = quoted col @ '' has '' @ str_nat n @ '' unique categories''"

text \<open>The two iterations of \<^verbatim>\<open>generate_insights\<close>; \<open>insights\<close> is the list appended to.\<close>

fun numeric_insights_loop :: "DataFrame \<Rightarrow> string list \<Rightarrow> string list \<Rightarrow> error + string list" where
  "numeric_insights_loop df [] insights = Inr insights"
| "numeric_insights_loop df (col # cols) insights =
     (case getitem df col of
        Inl e \<Rightarrow> Inl e
      | Inr s \<Rightarrow>
          (let mean_val = mean s; median_val = median s
           in if fgt mean_val (fmul median_val (Fin 1.2))
              then numeric_insights_loop df cols (insights @ [right_skew_insight col])
              else if flt mean_val (fmul median_val (Fin 0.8))
              then numeric_insights_loop df cols (insights @ [left_skew_insight col])
              else numeric_insights_loop df cols insights))"

fun categorical_insights_loop :: "DataFrame \<Rightarrow> string list \<Rightarrow> string list \<Rightarrow> error + string list" where
  "categorical_insights_loop df [] insights = Inr insights"
| "categorical_insights_loop df (col # cols) insights =
     (case getitem df col of
        Inl e \<Rightarrow> Inl e
      | Inr s \<Rightarrow>
          (let unique_count = nunique s
           in if unique_count < 10
              then categorical_insights_loop df cols (insights @ [categories_insight col unique_count])
              else categorical_insights_loop df cols insights))"

definition generate_insights :: "DataFrame \<Rightarrow> error + string list" where
  "generate_insights df =
     (let numeric_cols = select_dtypes Number df;
          insights = [] @ [records_insight (len df) (length (column_names df))]
      in case (if length numeric_cols > 0
               then numeric_insights_loop df numeric_cols insights
               else Inr insights)
         of Inl e \<Rightarrow> Inl e
          | Inr insights1 \<Rightarrow>
              (let cat_cols = select_dtypes Object df
               in if length cat_cols > 0
                  then categorical_insights_loop df cat_cols insights1
                  else Inr insights1))"

text \<open>\<^verbatim>\<open>detect_outliers(df)\<close>: the loop over the numeric columns.\<close>

definition is_outlier :: "pyfloat \<Rightarrow> pyfloat \<Rightarrow> cell \<Rightarrow> bool" where
  "is_outlier lower_bound upper_bound c =
     (flt (to_float c) lower_bound \<or> fgt (to_float c) upper_bound)"

definition outlier_info :: "DataFrame \<Rightarrow> Series \<Rightarrow> OutlierInfo" where
  "outlier_info df s =
     (let Q1 = quantile s 0.25;
          Q3 = quantile s 0.75;
          IQR = fsub Q3 Q1;
          lower_bound = fsub Q1 (fmul (Fin 1.5) IQR);
          upper_bound = fadd Q3 (fmul (Fin 1.5) IQR);
          outlier_count = length (filter (is_outlier lower_bound upper_bound) (s_values s))
      in \<lparr>o_count = int outlier_count,
          o_percentage = fmul (np_true_divide outlier_count (len df)) (Fin 100),
          o_lower = lower_bound,
          o_upper = upper_bound\<rparr>)"

fun outliers_loop ::
  "DataFrame \<Rightarrow> string list \<Rightarrow> (string \<times> OutlierInfo) list \<Rightarrow> error + (string \<times> OutlierInfo) list"
where
  "outliers_loop df [] outliers = Inr outliers"
| "outliers_loop df (col # cols) outliers =
     (case getitem df col of
        Inl e \<Rightarrow> Inl e
      | Inr s \<Rightarrow> outliers_loop df cols (AList.update col (outlier_info df s) outliers))"

definition detect_outliers :: "DataFrame \<Rightarrow> error + (string \<times> OutlierInfo) list" where
  "detect_outliers df = outliers_loop df (select_dtypes Number df) []"



definition columns_of_dtype :: "dtype \<Rightarrow> DataFrame \<Rightarrow> Series list" where
  "columns_of_dtype t df = filter (\<lambda>s. s_dtype s = t) (df_columns df)"


section \<open>VisualizerAgent\<close>

text \<open>\<^verbatim>\<open>os.path.join(dir, name)\<close> for a file name that is not absolute. Writing a file
  replaces what was at the path; the writes are taken to succeed.\<close>

definition path_join :: "string \<Rightarrow> string \<Rightarrow> string" where
  "path_join dir file =
     (if dir = [] \<or> last dir = CHR ''/'' then dir @ file else dir @ ''/'' @ file)"

definition write_file :: "world \<Rightarrow> string \<Rightarrow> artifact \<Rightarrow> world" where
  "write_file w path a = w\<lparr>files := AList.update path a (files w)\<rparr>"

fun distribution_plots_loop ::
  "string \<Rightarrow> DataFrame \<Rightarrow> string list \<Rightarrow> world \<times> (string \<times> string) list
     \<Rightarrow> error + world \<times> (string \<times> string) list"
where
  "distribution_plots_loop output_dir df [] ws = Inr ws"
| "distribution_plots_loop output_dir df (col # cols) ws =
     (case getitem df col of
        Inl e \<Rightarrow> Inl e
      | Inr s \<Rightarrow>
          (let filepath = path_join output_dir (''distribution_'' @ col @ ''.png'')
           in distribution_plots_loop output_dir df cols
                (write_file (fst ws) filepath (DistributionPlot (s_values s)),
                 AList.update col filepath (snd ws))))"

definition create_distribution_plots ::
  "string \<Rightarrow> world \<Rightarrow> DataFrame \<Rightarrow> error + world \<times> (string \<times> string) list" where
  "create_distribution_plots output_dir w df =
     distribution_plots_loop output_dir df (select_dtypes Number df) (w, [])"

definition create_correlation_heatmap ::
  "string \<Rightarrow> world \<Rightarrow> DataFrame \<Rightarrow> error + world \<times> string option" where
  "create_correlation_heatmap output_dir w df =
     (let numeric_cols = select_dtypes Number df
      in if length numeric_cols < 2 then Inr (w, None)
         else (case getitems df numeric_cols of
                 Inl e \<Rightarrow> Inl e
               | Inr cols \<Rightarrow>
                   (let corr_matrix = corr cols;
                        filepath = path_join output_dir ''correlation_heatmap.png''
                    in Inr (write_file w filepath (CorrelationHeatmap corr_matrix),
                            Some filepath))))"

text \<open>\<^verbatim>\<open>create_summary_report(stats, insights)\<close>; \<open>None\<close> is a \<open>stats\<close> dictionary
  without the key \<^verbatim>\<open>"numeric_columns_stats"\<close>.\<close>

definition create_summary_report ::
  "string \<Rightarrow> world \<Rightarrow> Statistics option \<Rightarrow> string list \<Rightarrow> world \<times> string" where
  "create_summary_report output_dir w stats insights =
     (let report_path = path_join output_dir ''analysis_report.txt''
      in (write_file w report_path
            (SummaryReport insights
               (case stats of None \<Rightarrow> [] | Some st \<Rightarrow> numeric_columns_stats st)),
          report_path))"

section \<open>The pipeline\<close>

text \<open>\<^verbatim>\<open>AnalysisState\<close>: the dictionary the nodes work on. \<open>raw_data\<close>,
  \<open>cleaned_data\<close> and \<open>messages\<close> hold references; an entry that is still the empty
  placeholder of the initial state is \<open>None\<close>.\<close>

record AnalysisState =
  raw_data :: ref
  cleaned_data :: "ref option"
  cleaning_metadata :: "CleaningMetadata option"
  validation_report :: "ValidationReport option"
  statistics :: "Statistics option"
  insights :: "string list"
  outliers :: "(string \<times> OutlierInfo) list"
  visualizations :: "Visualizations option"
  report_path :: string
  messages :: ref

text \<open>The check mark that starts each message, in UTF-8.\<close>

definition check_mark :: string where
  "check_mark = [CHR 0xE2, CHR 0x9C, CHR 0x93]"

type_synonym node = "world \<Rightarrow> AnalysisState \<Rightarrow> error + world \<times> AnalysisState"

definition load_data_node :: node where
  "load_data_node w state =
     Inr (list_append w (messages state) (check_mark @ '' Data loaded successfully''), state)"

definition cleaning_node :: node where
  "cleaning_node w state =
     (case clean_data w (raw_data state) of
        Inl e \<Rightarrow> Inl e
      | Inr (w1, cleaning_result) \<Rightarrow>
          (let state1 = state\<lparr>cleaned_data := Some (cr_cleaned_data cleaning_result)\<rparr>;
               state2 = state1\<lparr>cleaning_metadata := Some (cr_metadata cleaning_result)\<rparr>;
               state3 = state2\<lparr>validation_report :=
                          Some (validate_data (frame_at w1 (cr_cleaned_data cleaning_result)))\<rparr>
           in Inr (list_append w1 (messages state3)
                     (check_mark @ '' Data cleaned: ''
                        @ str_int (rows_removed (cr_metadata cleaning_result)) @ '' rows removed''),
                   state3)))"

definition analysis_node :: node where
  "analysis_node w state =
     (case cleaned_data state of
        None \<Rightarrow> Inl AttributeError
      | Some df \<Rightarrow>
          (case compute_statistics (frame_at w df) of
             Inl e \<Rightarrow> Inl e
           | Inr stats \<Rightarrow>
               (case generate_insights (frame_at w df) of
                  Inl e \<Rightarrow> Inl e
                | Inr ins \<Rightarrow>
                    (case detect_outliers (frame_at w df) of
                       Inl e \<Rightarrow> Inl e
                     | Inr outs \<Rightarrow>
                         (let state3 = state\<lparr>statistics := Some stats, insights := ins,
                                             outliers := outs\<rparr>
                          in Inr (list_append w (messages state3)
                                    (check_mark @ '' Analysis complete: ''
                                       @ str_nat (length (insights state3))
                                       @ '' insights generated''),
                                  state3))))))"

text \<open>\<^verbatim>\<open>VisualizerAgent()\<close> is built with the default output directory.\<close>

definition default_output_dir :: string where
  "default_output_dir = ''outputs''"

definition visualization_node :: node where
  "visualization_node w state =
     (case cleaned_data state of
        None \<Rightarrow> Inl AttributeError
      | Some df \<Rightarrow>
          (case create_distribution_plots default_output_dir w (frame_at w df) of
             Inl e \<Rightarrow> Inl e
           | Inr (w1, dist_plots) \<Rightarrow>
               (case create_correlation_heatmap default_output_dir w1 (frame_at w1 df) of
                  Inl e \<Rightarrow> Inl e
                | Inr (w2, heatmap) \<Rightarrow>
                    (let state1 = state\<lparr>visualizations :=
                                      Some \<lparr>distributions = dist_plots,
                                            correlation_heatmap = heatmap\<rparr>\<rparr>;
                         (w3, path) = create_summary_report default_output_dir w2
                                        (statistics state1) (insights state1);
                         state2 = state1\<lparr>report_path := path\<rparr>
                     in Inr (list_append w3 (messages state2)
                               (check_mark @ '' Visualizations created: ''
                                  @ str_nat (length dist_plots) @ '' plots + heatmap''),
                             state2)))))"

subsection \<open>The graph and its execution\<close>

text \<open>
  \<^verbatim>\<open>create_workflow\<close> builds a LangGraph \<^verbatim>\<open>StateGraph\<close> over \<^verbatim>\<open>AnalysisState\<close> and
  compiles it. The graph is data: named nodes, an entry point and edges; \<open>END\<close> is the
  name LangGraph gives the end of a run.
\<close>

record StateGraph =
  nodes :: "(string \<times> node) list"
  entry_point :: "string option"
  edges :: "(string \<times> string) list"

definition END :: string where
  "END = ''__end__''"

definition new_graph :: StateGraph where
  "new_graph = \<lparr>nodes = [], entry_point = None, edges = []\<rparr>"

definition add_node :: "string \<Rightarrow> node \<Rightarrow> StateGraph \<Rightarrow> StateGraph" where
  "add_node n f g = g\<lparr>nodes := nodes g @ [(n, f)]\<rparr>"

definition set_entry_point :: "string \<Rightarrow> StateGraph \<Rightarrow> StateGraph" where
  "set_entry_point n g = g\<lparr>entry_point := Some n\<rparr>"

definition add_edge :: "string \<Rightarrow> string \<Rightarrow> StateGraph \<Rightarrow> StateGraph" where
  "add_edge a b g = g\<lparr>edges := edges g @ [(a, b)]\<rparr>"

definition create_workflow :: StateGraph where
  "create_workflow =
     (add_edge ''visualize_data'' END
     (add_edge ''analyze_data'' ''visualize_data''
     (add_edge ''clean_data'' ''analyze_data''
     (add_edge ''load_data'' ''clean_data''
     (set_entry_point ''load_data''
     (add_node ''visualize_data'' visualization_node
     (add_node ''analyze_data'' analysis_node
     (add_node ''clean_data'' cleaning_node
     (add_node ''load_data'' load_data_node new_graph)))))))))"

text \<open>
  The execution of the compiled graph, as LangGraph defines it for a state schema. Each
  key of the state is a channel. A node is called with a dictionary of the current channel
  values (the objects themselves, not copies) and the dictionary it returns is written
  back key by key: a plain key takes the returned value, and a key annotated with a
  reducer takes \<open>reducer(current, returned)\<close>. In \<^verbatim>\<open>AnalysisState\<close> the key
  \<^verbatim>\<open>messages\<close> is declared \<^verbatim>\<open>Annotated[list, operator.add]\<close>, so its channel becomes the
  new list \<open>current + returned\<close>; the other keys take the returned value.
\<close>

definition write_back :: "world \<Rightarrow> AnalysisState \<Rightarrow> AnalysisState \<Rightarrow> world \<times> AnalysisState" where
  "write_back w channels returned =
     (let (w1, m) = new_list w (list_at w (messages channels) @ list_at w (messages returned))
      in (w1, returned\<lparr>messages := m\<rparr>))"

definition superstep :: "node \<Rightarrow> world \<times> AnalysisState \<Rightarrow> error + world \<times> AnalysisState" where
  "superstep f wc =
     (case f (fst wc) (snd wc) of
        Inl e \<Rightarrow> Inl e
      | Inr (w1, returned) \<Rightarrow> Inr (write_back w1 (snd wc) returned))"

text \<open>The run follows the edge out of each node until \<open>END\<close>; the number of steps is
  bounded by LangGraph's recursion limit (25 unless configured), beyond which the run
  fails. Every node of this graph has one outgoing edge.\<close>

fun run_from ::
  "StateGraph \<Rightarrow> nat \<Rightarrow> string \<Rightarrow> world \<times> AnalysisState \<Rightarrow> error + world \<times> AnalysisState"
where
  "run_from g limit n wc =
     (if n = END then Inr wc
      else case limit of
             0 \<Rightarrow> Inl GraphRecursionError
           | Suc k \<Rightarrow>
               (case map_of (nodes g) n of
                  None \<Rightarrow> Inl KeyError
                | Some f \<Rightarrow>
                    (case superstep f wc of
                       Inl e \<Rightarrow> Inl e
                     | Inr wc1 \<Rightarrow>
                         (case map_of (edges g) n of
                            None \<Rightarrow> Inr wc1
                          | Some n1 \<Rightarrow> run_from g k n1 wc1))))"

declare run_from.simps [simp del]

definition recursion_limit :: nat where
  "recursion_limit = 25"

text \<open>\<^verbatim>\<open>app.invoke(initial_state)\<close>: the input is written to the channels first (the
  \<^verbatim>\<open>messages\<close> channel starts as the empty list and takes \<open>[] + input\<close>), then the graph
  runs from its entry point; the result is the final value of every channel.\<close>

definition invoke :: "StateGraph \<Rightarrow> world \<Rightarrow> AnalysisState \<Rightarrow> error + world \<times> AnalysisState" where
  "invoke g w initial_state =
     (case entry_point g of
        None \<Rightarrow> Inl ValueError
      | Some n \<Rightarrow>
          (let (w0, m) = new_list w ([] @ list_at w (messages initial_state))
           in run_from g recursion_limit n (w0, initial_state\<lparr>messages := m\<rparr>)))"

text \<open>The initial state the application builds for a run: the uploaded table, a new
  empty list of messages and empty placeholders.\<close>

definition initial_state :: "ref \<Rightarrow> ref \<Rightarrow> AnalysisState" where
  "initial_state df msgs =
     \<lparr>raw_data = df, cleaned_data = None, cleaning_metadata = None, validation_report = None,
      statistics = None, insights = [], outliers = [], visualizations = None,
      report_path = [], messages = msgs\<rparr>"

text \<open>What one step of the run does to the message list when the node has appended
  \<open>m\<close> to the list \<open>xs\<close> of the channel itself and returned it: the reducer adds the
  returned list to the channel's list, which is the same object.\<close>

definition add_after_append :: "string list \<Rightarrow> string \<Rightarrow> string list" where
  "add_after_append xs m = (xs @ [m]) @ (xs @ [m])"

text \<open>A node that, when it returns, has appended one message to the list the state
  refers to, has kept the references \<open>raw_data\<close> and \<open>messages\<close> of the state, and has
  left the frames that existed before the call as they were.\<close>

definition appends_one_message :: "node \<Rightarrow> bool" where
  "appends_one_message f =
     (\<forall>w state w' state'. f w state = Inr (w', state') \<longrightarrow>
        messages state' = messages state \<and> raw_data state' = raw_data state
        \<and> (\<exists>m. pylists w' = (pylists w)[messages state := pylists w ! messages state @ [m]])
        \<and> length (frames w) \<le> length (frames w')
        \<and> (\<forall>a < length (frames w). frames w' ! a = frames w ! a))"

section \<open>Example tables\<close>

text \<open>A store that holds one frame, at address 0, and one empty list, at address 0 of
  the lists.\<close>

definition world_of :: "DataFrame \<Rightarrow> world" where
  "world_of df = \<lparr>frames = [df], pylists = [ [] ], files = []\<rparr>"

text \<open>Four rows: the second repeats the first and the third has no city.\<close>

definition frame_small :: DataFrame where
  "frame_small =
     \<lparr>df_index = [0, 1, 2, 3],
      df_columns =
        [\<lparr>s_name = ''city'', s_dtype = Object,
          s_values = [Str '' NY'', Str '' NY'', Missing, Str ''LA'']\<rparr>,
         \<lparr>s_name = ''x'', s_dtype = Number, s_values = [Num 1, Num 1, Num 2, Num 3]\<rparr>]\<rparr>"

definition frame_small_cleaned :: DataFrame where
  "frame_small_cleaned =
     \<lparr>df_index = [0, 3],
      df_columns =
        [\<lparr>s_name = ''city'', s_dtype = Object, s_values = [Str ''NY'', Str ''LA'']\<rparr>,
         \<lparr>s_name = ''x'', s_dtype = Number, s_values = [Num 1, Num 3]\<rparr>]\<rparr>"

definition frame_small_result :: "world \<times> CleaningResult" where
  "frame_small_result =
     (\<lparr>frames = [frame_small, drop_duplicates frame_small, frame_small_cleaned],
       pylists = [ [] ], files = []\<rparr>,
      \<lparr>cr_cleaned_data = 2,
       cr_metadata = \<lparr>original_rows = 4, cleaned_rows = 2, rows_removed = 2,
                      columns = [''city'', ''x''],
                      dtypes = [(''city'', Object), (''x'', Number)]\<rparr>\<rparr>)"

text \<open>One numeric column with the values 1, 2, 3, 4, 5 and 100.\<close>

definition column_e :: Series where
  "column_e = \<lparr>s_name = ''x'', s_dtype = Number,
               s_values = [Num 1, Num 2, Num 3, Num 4, Num 5, Num 100]\<rparr>"

definition frame_e :: DataFrame where
  "frame_e = \<lparr>df_index = [0, 1, 2, 3, 4, 5], df_columns = [column_e]\<rparr>"

text \<open>One numeric column and no rows, as \<open>dropna\<close> leaves a table in which every row
  had a missing value.\<close>

definition frame_no_rows :: DataFrame where
  "frame_no_rows =
     \<lparr>df_index = [], df_columns = [\<lparr>s_name = ''x'', s_dtype = Number, s_values = []\<rparr>]\<rparr>"

text \<open>Six rows: a text column with three distinct values, then a numeric column whose
  mean is far above its median, one whose mean is far below, and one with neither.\<close>

definition frame_insights :: DataFrame where
  "frame_insights =
     \<lparr>df_index = [0, 1, 2, 3, 4, 5],
      df_columns =
        [\<lparr>s_name = ''c'', s_dtype = Object,
          s_values = [Str ''a'', Str ''b'', Str ''c'', Str ''a'', Str ''b'', Str ''c'']\<rparr>,
         \<lparr>s_name = ''x'', s_dtype = Number,
          s_values = [Num 1, Num 2, Num 3, Num 4, Num 5, Num 100]\<rparr>,
         \<lparr>s_name = ''y'', s_dtype = Number,
          s_values = [Num 10, Num 10, Num 10, Num 10, Num 10, Num (- 50)]\<rparr>,
         \<lparr>s_name = ''z'', s_dtype = Number,
          s_values = [Num 1, Num 2, Num 3, Num 4, Num 5, Num 6]\<rparr>]\<rparr>"




text \<open>Two rows that differ only in a trailing space of the text column, and what
  \<open>clean_data\<close> makes of them on a first and on a second run.\<close>

definition frame_ws :: DataFrame where
  "frame_ws =
     \<lparr>df_index = [0, 1],
      df_columns =
        [\<lparr>s_name = ''city'', s_dtype = Object, s_values = [Str ''a '', Str ''a'']\<rparr>,
         \<lparr>s_name = ''x'', s_dtype = Number, s_values = [Num 1, Num 1]\<rparr>]\<rparr>"

definition frame_ws_cleaned :: DataFrame where
  "frame_ws_cleaned =
     \<lparr>df_index = [0, 1],
      df_columns =
        [\<lparr>s_name = ''city'', s_dtype = Object, s_values = [Str ''a'', Str ''a'']\<rparr>,
         \<lparr>s_name = ''x'', s_dtype = Number, s_values = [Num 1, Num 1]\<rparr>]\<rparr>"

definition frame_ws_cleaned_twice :: DataFrame where
  "frame_ws_cleaned_twice =
     \<lparr>df_index = [0],
      df_columns =
        [\<lparr>s_name = ''city'', s_dtype = Object, s_values = [Str ''a'']\<rparr>,
         \<lparr>s_name = ''x'', s_dtype = Number, s_values = [Num 1]\<rparr>]\<rparr>"

definition ws_first_run :: "world \<times> CleaningResult" where
  "ws_first_run =
     (\<lparr>frames = [frame_ws, frame_ws, frame_ws_cleaned], pylists = [ [] ], files = []\<rparr>,
      \<lparr>cr_cleaned_data = 2,
       cr_metadata = \<lparr>original_rows = 2, cleaned_rows = 2, rows_removed = 0,
                      columns = [''city'', ''x''],
                      dtypes = [(''city'', Object), (''x'', Number)]\<rparr>\<rparr>)"

definition ws_second_run :: "world \<times> CleaningResult" where
  "ws_second_run =
     (\<lparr>frames = [frame_ws, frame_ws, frame_ws_cleaned,
                 frame_ws_cleaned_twice, frame_ws_cleaned_twice],
       pylists = [ [] ], files = []\<rparr>,
      \<lparr>cr_cleaned_data = 4,
       cr_metadata = \<lparr>original_rows = 2, cleaned_rows = 1, rows_removed = 1,
                      columns = [''city'', ''x''],
                      dtypes = [(''city'', Object), (''x'', Number)]\<rparr>\<rparr>)"

text \<open>The message log of a run on \<open>frame_small\<close> that starts with an empty list: each
  step appends its message and the reducer then adds the list to itself.\<close>

definition small_run_log :: "string list" where
  "small_run_log =
     add_after_append (add_after_append (add_after_append (add_after_append []
       (check_mark @ '' Data loaded successfully''))
       (check_mark @ '' Data cleaned: 2 rows removed''))
       (check_mark @ '' Analysis complete: 2 insights generated''))
       (check_mark @ '' Visualizations created: 1 plots + heatmap'')"

text \<open>A column of booleans with a missing entry, which \<^verbatim>\<open>read_csv\<close> stores with dtype
  object.\<close>

definition frame_flags :: DataFrame where
  "frame_flags =
     \<lparr>df_index = [0, 1, 2],
      df_columns =
        [\<lparr>s_name = ''flag'', s_dtype = Object, s_values = [Bool True, Missing, Bool False]\<rparr>,
         \<lparr>s_name = ''x'', s_dtype = Number, s_values = [Num 1, Num 2, Num 3]\<rparr>]\<rparr>"

section \<open>Evaluation\<close>

lemmas pandas_defs =
  frame_at_def new_frame_def update_frame_def drop_duplicates_def empty_frame_def
  duplicated_def frame_rows_def len_def select_rows_def dropna_def select_dtypes_def
  getitem_def str_strip_def str_accessor_ok_def setitem_def strip_def is_space_def
  column_names_def

lemmas stats_defs = outlier_info_def quantile_def lerp_at_def is_outlier_def fgt_def
  np_true_divide_def mean_def median_def nunique_def

lemma str_nat_digit: "n < 10 \<Longrightarrow> str_nat n = [digit_char n]"
  by (simp add: str_nat.simps)

lemmas text_defs = records_insight_def right_skew_insight_def left_skew_insight_def
  categories_insight_def quoted_def digit_char_def str_nat_digit

section \<open>CleanerAgent: row counts\<close>

lemma length_keep_mask: "length (keep_mask m xs) \<le> length xs"
  by (induction m xs rule: keep_mask.induct) auto

lemma len_select_rows: "len (select_rows m df) \<le> len df"
  by (simp add: len_def select_rows_def length_keep_mask)

lemma len_drop_duplicates: "len (drop_duplicates df) \<le> len df"
  by (simp add: drop_duplicates_def len_select_rows)

lemma len_dropna: "len (dropna df) \<le> len df"
  by (simp add: dropna_def len_select_rows)

lemma strip_columns_frame:
  "strip_columns w r cols = Inr w' \<Longrightarrow> r < length (frames w) \<Longrightarrow>
     length (frames w') = length (frames w)
     \<and> (\<forall>a. a \<noteq> r \<longrightarrow> frames w' ! a = frames w ! a)
     \<and> df_index (frames w' ! r) = df_index (frames w ! r)
     \<and> pylists w' = pylists w \<and> files w' = files w"
proof (induction cols arbitrary: w)
  case Nil
  then show ?case by simp
next
  case (Cons col cols)
  from Cons.prems(1) obtain s stripped where
    g: "getitem (frame_at w r) col = Inr s" and
    st: "str_strip s = Inr stripped" and
    rec: "strip_columns (update_frame w r (setitem (frame_at w r) col stripped)) r cols = Inr w'"
    by (auto split: sum.splits)
  let ?w1 = "update_frame w r (setitem (frame_at w r) col stripped)"
  have len1: "length (frames ?w1) = length (frames w)"
    by (simp add: update_frame_def)
  with Cons.prems(2) have "r < length (frames ?w1)" by simp
  from Cons.IH [OF rec this] have ih:
    "length (frames w') = length (frames ?w1)"
    "\<forall>a. a \<noteq> r \<longrightarrow> frames w' ! a = frames ?w1 ! a"
    "df_index (frames w' ! r) = df_index (frames ?w1 ! r)"
    "pylists w' = pylists ?w1" "files w' = files ?w1"
    by auto
  have "df_index (frames ?w1 ! r) = df_index (frames w ! r)"
    using Cons.prems(2) by (simp add: update_frame_def setitem_def frame_at_def)
  moreover have "\<forall>a. a \<noteq> r \<longrightarrow> frames ?w1 ! a = frames w ! a"
    by (simp add: update_frame_def)
  moreover have "pylists ?w1 = pylists w" "files ?w1 = files w"
    by (simp_all add: update_frame_def)
  ultimately show ?case using ih len1 by simp
qed

text \<open>What \<open>clean_data\<close> returns, spelled out.\<close>

lemma clean_data_Inr:
  assumes "clean_data w df = Inr (w', res)"
  shows "\<exists>w2. strip_columns w2 (Suc (length (frames w)))
                 (select_dtypes Object (dropna (drop_duplicates (frame_at w df)))) = Inr w'
          \<and> frames w2 = frames w @ [drop_duplicates (frame_at w df),
                                     dropna (drop_duplicates (frame_at w df))]
          \<and> pylists w2 = pylists w \<and> files w2 = files w
          \<and> cr_cleaned_data res = Suc (length (frames w))
          \<and> original_rows (cr_metadata res) = len (frame_at w df)
          \<and> cleaned_rows (cr_metadata res) = len (frame_at w' (cr_cleaned_data res))
          \<and> rows_removed (cr_metadata res)
              = int (original_rows (cr_metadata res)) - int (cleaned_rows (cr_metadata res))"
  using assms
  by (auto simp: clean_data_def Let_def new_frame_def frame_at_def nth_append
           split: sum.splits)

text \<open>
  C5. For every input table, the metadata \<open>clean_data\<close> returns holds the row count of
  the input and the row count of the cleaned table, \<open>rows_removed\<close> is their difference,
  it is not negative, and the cleaned table has at most as many rows as the input.
\<close>

theorem clean_data_row_counts:
  assumes "clean_data w df = Inr (w', res)"
  shows "original_rows (cr_metadata res) = len (frame_at w df)
       \<and> cleaned_rows (cr_metadata res) = len (frame_at w' (cr_cleaned_data res))
       \<and> rows_removed (cr_metadata res)
           = int (original_rows (cr_metadata res)) - int (cleaned_rows (cr_metadata res))
       \<and> 0 \<le> rows_removed (cr_metadata res)
       \<and> cleaned_rows (cr_metadata res) \<le> original_rows (cr_metadata res)"
proof -
  from clean_data_Inr [OF assms] obtain w2 where
    sc: "strip_columns w2 (Suc (length (frames w)))
           (select_dtypes Object (dropna (drop_duplicates (frame_at w df)))) = Inr w'" and
    fr: "frames w2 = frames w @ [drop_duplicates (frame_at w df),
                                 dropna (drop_duplicates (frame_at w df))]" and
    r: "cr_cleaned_data res = Suc (length (frames w))" and
    o: "original_rows (cr_metadata res) = len (frame_at w df)" and
    c: "cleaned_rows (cr_metadata res) = len (frame_at w' (cr_cleaned_data res))" and
    rr: "rows_removed (cr_metadata res)
           = int (original_rows (cr_metadata res)) - int (cleaned_rows (cr_metadata res))"
    by blast
  have "Suc (length (frames w)) < length (frames w2)" using fr by simp
  from strip_columns_frame [OF sc this]
  have "df_index (frames w' ! Suc (length (frames w))) = df_index (frames w2 ! Suc (length (frames w)))"
    by simp
  also have "frames w2 ! Suc (length (frames w)) = dropna (drop_duplicates (frame_at w df))"
    using fr by (simp add: nth_append)
  finally have "len (frame_at w' (cr_cleaned_data res)) = len (dropna (drop_duplicates (frame_at w df)))"
    using r by (simp add: len_def frame_at_def)
  also have "\<dots> \<le> len (frame_at w df)"
    using len_dropna len_drop_duplicates le_trans by blast
  finally have le: "cleaned_rows (cr_metadata res) \<le> original_rows (cr_metadata res)"
    using o c by simp
  with o c rr show ?thesis by simp
qed

theorem clean_data_row_counts_witness:
  "clean_data (world_of frame_small) 0 = Inr frame_small_result
   \<and> original_rows (cr_metadata (snd frame_small_result)) = 4
   \<and> cleaned_rows (cr_metadata (snd frame_small_result)) = 2
   \<and> rows_removed (cr_metadata (snd frame_small_result)) = 4 - 2
   \<and> 0 \<le> rows_removed (cr_metadata (snd frame_small_result))
   \<and> cleaned_rows (cr_metadata (snd frame_small_result))
       \<le> original_rows (cr_metadata (snd frame_small_result))"
proof -
  have run: "clean_data (world_of frame_small) 0
               = Inr (fst frame_small_result, snd frame_small_result)"
    by (simp add: clean_data_def world_of_def frame_small_def frame_small_cleaned_def
                  frame_small_result_def pandas_defs)
  have vals: "original_rows (cr_metadata (snd frame_small_result)) = 4"
             "cleaned_rows (cr_metadata (snd frame_small_result)) = 2"
    by (simp_all add: frame_small_result_def)
  from clean_data_row_counts [OF run] run vals show ?thesis by simp
qed

section \<open>CleanerAgent: a table it fails on\<close>

text \<open>On a text-typed column that holds only booleans the \<^verbatim>\<open>.str\<close> accessor raises, and
  so does \<open>clean_data\<close>.\<close>

lemma clean_data_frame_flags: "clean_data (world_of frame_flags) 0 = Inl AttributeError"
  by (simp add: clean_data_def world_of_def frame_flags_def pandas_defs)

section \<open>CleanerAgent: a second run\<close>

lemma ws_first: "clean_data (world_of frame_ws) 0 = Inr ws_first_run"
  by (simp add: clean_data_def world_of_def frame_ws_def frame_ws_cleaned_def ws_first_run_def
                pandas_defs)

lemma ws_second:
  "clean_data (fst ws_first_run) (cr_cleaned_data (snd ws_first_run)) = Inr ws_second_run"
  by (simp add: clean_data_def frame_ws_def frame_ws_cleaned_def frame_ws_cleaned_twice_def
                ws_first_run_def ws_second_run_def pandas_defs)

text \<open>
  C2. The claim: a second run of \<open>clean_data\<close> on its own output removes no row and
  returns the same table. The code at the table \<open>frame_ws\<close>: the first run keeps both
  rows, since they differ before the text is stripped, and makes them equal by stripping;
  the second run then removes one row and returns a table of one row.
\<close>

theorem clean_data_second_run_removes_row:
  "clean_data (world_of frame_ws) 0 = Inr ws_first_run
   \<and> clean_data (fst ws_first_run) (cr_cleaned_data (snd ws_first_run)) = Inr ws_second_run
   \<and> rows_removed (cr_metadata (snd ws_second_run)) = 1
   \<and> frame_at (fst ws_first_run) (cr_cleaned_data (snd ws_first_run)) = frame_ws_cleaned
   \<and> frame_at (fst ws_second_run) (cr_cleaned_data (snd ws_second_run)) = frame_ws_cleaned_twice
   \<and> frame_ws_cleaned_twice \<noteq> frame_ws_cleaned"
proof -
  have "rows_removed (cr_metadata (snd ws_second_run)) = 1"
    by (simp add: ws_second_run_def)
  moreover have "frame_at (fst ws_first_run) (cr_cleaned_data (snd ws_first_run)) = frame_ws_cleaned"
    by (simp add: ws_first_run_def frame_at_def)
  moreover have "frame_at (fst ws_second_run) (cr_cleaned_data (snd ws_second_run))
                   = frame_ws_cleaned_twice"
    by (simp add: ws_second_run_def frame_at_def)
  moreover have "frame_ws_cleaned_twice \<noteq> frame_ws_cleaned"
    by (simp add: frame_ws_cleaned_twice_def frame_ws_cleaned_def)
  ultimately show ?thesis using ws_first ws_second by simp
qed

text \<open>
  C3. The claim: \<open>validate_data\<close> on the table \<open>clean_data\<close> returns reports no missing
  value and no duplicate row. The code at the table \<open>frame_ws\<close>: no value is missing, and
  one duplicate row is reported, the two rows having become equal when the text was
  stripped after the duplicates were dropped.
\<close>

theorem validate_cleaned_reports_duplicate:
  "clean_data (world_of frame_ws) 0 = Inr ws_first_run
   \<and> missing_values (validate_data (frame_at (fst ws_first_run) (cr_cleaned_data (snd ws_first_run))))
       = [(''city'', 0), (''x'', 0)]
   \<and> duplicate_rows (validate_data (frame_at (fst ws_first_run) (cr_cleaned_data (snd ws_first_run))))
       = 1"
proof -
  have f: "frame_at (fst ws_first_run) (cr_cleaned_data (snd ws_first_run)) = frame_ws_cleaned"
    by (simp add: ws_first_run_def frame_at_def)
  have "missing_values (validate_data frame_ws_cleaned) = [(''city'', 0), (''x'', 0)]"
    by (simp add: validate_data_def isnull_sum_def frame_ws_cleaned_def)
  moreover have "duplicate_rows (validate_data frame_ws_cleaned) = 1"
    by (simp add: validate_data_def frame_ws_cleaned_def pandas_defs)
  ultimately show ?thesis using ws_first f by simp
qed

section \<open>Iteration over the columns of a frame\<close>

lemma find_by_name:
  "distinct (map s_name cols) \<Longrightarrow> s \<in> set cols \<Longrightarrow> find (\<lambda>x. s_name x = s_name s) cols = Some s"
proof (induction cols)
  case Nil
  then show ?case by simp
next
  case (Cons c cols)
  show ?case
  proof (cases "s = c")
    case True
    then show ?thesis by simp
  next
    case False
    with Cons.prems have mem: "s \<in> set cols" by simp
    then have "s_name s \<in> set (map s_name cols)" by simp
    with Cons.prems(1) have "s_name c \<noteq> s_name s" by auto
    with Cons mem show ?thesis by simp
  qed
qed

lemma getitem_member:
  "distinct (column_names df) \<Longrightarrow> s \<in> set (df_columns df) \<Longrightarrow> getitem df (s_name s) = Inr s"
  by (simp add: getitem_def column_names_def find_by_name)

lemma select_dtypes_columns: "select_dtypes t df = map s_name (columns_of_dtype t df)"
  by (simp add: select_dtypes_def columns_of_dtype_def)

lemma columns_of_dtype_subset: "set (columns_of_dtype t df) \<subseteq> set (df_columns df)"
  by (auto simp: columns_of_dtype_def)

lemma columns_of_dtype_distinct:
  "distinct (column_names df) \<Longrightarrow> distinct (map s_name (columns_of_dtype t df))"
  by (simp add: columns_of_dtype_def column_names_def distinct_map_filter)

lemma update_fresh: "k \<notin> fst ` set al \<Longrightarrow> AList.update k v al = al @ [(k, v)]"
  by (induction al) auto

lemma getitems_columns:
  "distinct (column_names df) \<Longrightarrow> set ss \<subseteq> set (df_columns df) \<Longrightarrow>
     getitems df (map s_name ss) = Inr ss"
  by (induction ss) (auto simp: getitem_member)

lemma outliers_loop_columns:
  "distinct (column_names df) \<Longrightarrow> set ss \<subseteq> set (df_columns df) \<Longrightarrow>
   distinct (map s_name ss) \<Longrightarrow> s_name ` set ss \<inter> fst ` set acc = {} \<Longrightarrow>
     outliers_loop df (map s_name ss) acc
       = Inr (acc @ map (\<lambda>s. (s_name s, outlier_info df s)) ss)"
proof (induction ss arbitrary: acc)
  case Nil
  then show ?case by simp
next
  case (Cons s ss)
  have g: "getitem df (s_name s) = Inr s"
    using Cons.prems by (simp add: getitem_member)
  have fresh: "s_name s \<notin> fst ` set acc" using Cons.prems(4) by auto
  let ?acc = "acc @ [(s_name s, outlier_info df s)]"
  have "s_name ` set ss \<inter> fst ` set ?acc = {}"
    using Cons.prems(3,4) by auto
  with Cons.IH [of ?acc] Cons.prems
  have "outliers_loop df (map s_name ss) ?acc
          = Inr (?acc @ map (\<lambda>s. (s_name s, outlier_info df s)) ss)"
    by simp
  with g fresh show ?case by (simp add: update_fresh)
qed

lemma detect_outliers_columns:
  "distinct (column_names df) \<Longrightarrow>
     detect_outliers df
       = Inr (map (\<lambda>s. (s_name s, outlier_info df s)) (columns_of_dtype Number df))"
  using outliers_loop_columns [of df "columns_of_dtype Number df" "[]"]
  by (simp add: detect_outliers_def select_dtypes_columns columns_of_dtype_subset
                columns_of_dtype_distinct)



lemma getitem_known:
  "col \<in> set (column_names df) \<Longrightarrow> \<exists>s. getitem df col = Inr s"
proof -
  assume "col \<in> set (column_names df)"
  then obtain s where "s \<in> set (df_columns df)" "s_name s = col"
    by (auto simp: column_names_def)
  then have "find (\<lambda>s. s_name s = col) (df_columns df) \<noteq> None"
    by (auto simp: find_None_iff)
  then show ?thesis by (auto simp: getitem_def)
qed

lemma getitems_known:
  "set cols \<subseteq> set (column_names df) \<Longrightarrow> \<exists>ss. getitems df cols = Inr ss"
proof (induction cols)
  case Nil
  then show ?case by simp
next
  case (Cons col cols)
  then obtain s ss where "getitem df col = Inr s" "getitems df cols = Inr ss"
    using getitem_known [of col df] by auto
  then show ?case by simp
qed

lemma select_dtypes_known: "set (select_dtypes t df) \<subseteq> set (column_names df)"
  by (auto simp: select_dtypes_def column_names_def)

section \<open>Quartiles and outlier counts\<close>





section \<open>AnalystAgent: outliers\<close>


text \<open>
  C1 (amended). For every numeric column \<open>detect_outliers\<close> reports an entry, and its
  percentage is the outlier count divided by the number of rows, times 100, when the table
  has at least one row. With zero rows the division is not guarded: the percentage is NaN,
  not 0, and nothing is raised.
\<close>

theorem detect_outliers_percentage:
  assumes "distinct (column_names df)"
  shows "\<exists>outs. detect_outliers df = Inr outs
           \<and> map fst outs = select_dtypes Number df
           \<and> (\<forall>info \<in> snd ` set outs.
                 o_percentage info =
                   (if len df = 0 then NaN
                    else Fin (real_of_int (o_count info) / real (len df) * 100)))"
proof -
  have "o_percentage (outlier_info df s) =
          (if len df = 0 then NaN
           else Fin (real_of_int (o_count (outlier_info df s)) / real (len df) * 100))" for s
    by (simp add: outlier_info_def Let_def np_true_divide_def)
  then show ?thesis
    using detect_outliers_columns [OF assms]
    by (auto simp: select_dtypes_columns comp_def)
qed

theorem detect_outliers_percentage_witness:
  "distinct (column_names frame_e)
   \<and> detect_outliers frame_e
       = Inr [(''x'', \<lparr>o_count = 1, o_percentage = Fin (1 / 6 * 100),
                       o_lower = Fin (- 1.5), o_upper = Fin 8.5\<rparr>)]
   \<and> (\<exists>outs. detect_outliers frame_e = Inr outs
           \<and> map fst outs = select_dtypes Number frame_e
           \<and> (\<forall>info \<in> snd ` set outs.
                 o_percentage info =
                   (if len frame_e = 0 then NaN
                    else Fin (real_of_int (o_count info) / real (len frame_e) * 100))))"
proof -
  have d: "distinct (column_names frame_e)"
    by (simp add: frame_e_def column_e_def column_names_def)
  have e: "detect_outliers frame_e
       = Inr [(''x'', \<lparr>o_count = 1, o_percentage = Fin (1 / 6 * 100),
                       o_lower = Fin (- 1.5), o_upper = Fin 8.5\<rparr>)]"
    by (simp add: detect_outliers_def frame_e_def column_e_def pandas_defs stats_defs)
  from d e detect_outliers_percentage [OF d] show ?thesis by blast
qed

theorem detect_outliers_no_rows_counterexample:
  "len frame_no_rows = 0
   \<and> detect_outliers frame_no_rows
       = Inr [(''x'', \<lparr>o_count = 0, o_percentage = NaN, o_lower = NaN, o_upper = NaN\<rparr>)]
   \<and> NaN \<noteq> Fin 0"
  by (simp add: detect_outliers_def frame_no_rows_def pandas_defs stats_defs)



section \<open>AnalystAgent: insights\<close>



section \<open>VisualizerAgent: the correlation heatmap\<close>

text \<open>
  C8. \<open>create_correlation_heatmap\<close> returns a file path, and writes the heatmap of the
  correlation matrix to that file, if and only if the table has at least 2 numeric columns.
  With fewer it returns \<open>None\<close>, raises nothing and leaves the files as they are.
\<close>

theorem create_correlation_heatmap_iff:
  "\<exists>w' r. create_correlation_heatmap output_dir w df = Inr (w', r)
     \<and> (r \<noteq> None \<longleftrightarrow> 2 \<le> length (select_dtypes Number df))
     \<and> (length (select_dtypes Number df) < 2 \<longrightarrow> r = None \<and> w' = w)
     \<and> (2 \<le> length (select_dtypes Number df) \<longrightarrow>
           r = Some (path_join output_dir ''correlation_heatmap.png'')
         \<and> (\<exists>m. map_of (files w') (path_join output_dir ''correlation_heatmap.png'')
                   = Some (CorrelationHeatmap m)
                \<and> (distinct (column_names df) \<longrightarrow> m = corr (columns_of_dtype Number df)))
         \<and> frames w' = frames w \<and> pylists w' = pylists w)"
proof (cases "length (select_dtypes Number df) < 2")
  case True
  then show ?thesis by (simp add: create_correlation_heatmap_def)
next
  case False
  from getitems_known [OF select_dtypes_known]
  obtain ss where ss: "getitems df (select_dtypes Number df) = Inr ss" by blast
  have "distinct (column_names df) \<Longrightarrow> ss = columns_of_dtype Number df"
    using ss getitems_columns [of df "columns_of_dtype Number df"]
    by (simp add: select_dtypes_columns columns_of_dtype_subset)
  with False ss show ?thesis
    by (simp add: create_correlation_heatmap_def Let_def write_file_def update_conv')
qed

theorem create_correlation_heatmap_iff_witness:
  "length (select_dtypes Number frame_e) < 2
   \<and> create_correlation_heatmap ''outputs'' (world_of frame_e) frame_e
       = Inr (world_of frame_e, None)
   \<and> 2 \<le> length (select_dtypes Number frame_insights)
   \<and> distinct (column_names frame_insights)
   \<and> (\<exists>w'. create_correlation_heatmap ''outputs'' (world_of frame_insights) frame_insights
              = Inr (w', Some ''outputs/correlation_heatmap.png'')
          \<and> map_of (files w') ''outputs/correlation_heatmap.png''
              = Some (CorrelationHeatmap (corr (columns_of_dtype Number frame_insights))))"
proof -
  have a: "length (select_dtypes Number frame_e) < 2"
    by (simp add: select_dtypes_def frame_e_def column_e_def)
  have b: "2 \<le> length (select_dtypes Number frame_insights)"
    by (simp add: select_dtypes_def frame_insights_def)
  have d: "distinct (column_names frame_insights)"
    by (simp add: frame_insights_def column_names_def)
  have p: "path_join ''outputs'' ''correlation_heatmap.png'' = ''outputs/correlation_heatmap.png''"
    by (simp add: path_join_def)
  from create_correlation_heatmap_iff [of "''outputs''" "world_of frame_e" frame_e] a
  have 1: "create_correlation_heatmap ''outputs'' (world_of frame_e) frame_e
             = Inr (world_of frame_e, None)"
    by auto
  from create_correlation_heatmap_iff [of "''outputs''" "world_of frame_insights" frame_insights] b d
  have 2: "\<exists>w'. create_correlation_heatmap ''outputs'' (world_of frame_insights) frame_insights
              = Inr (w', Some ''outputs/correlation_heatmap.png'')
          \<and> map_of (files w') ''outputs/correlation_heatmap.png''
              = Some (CorrelationHeatmap (corr (columns_of_dtype Number frame_insights)))"
    unfolding p by auto
  from a b d 1 2 show ?thesis by blast
qed

section \<open>AnalystAgent: the correlation matrix\<close>











lemma compute_statistics_no_columns:
  "df_columns df = [] \<Longrightarrow> compute_statistics df = Inl ValueError"
  by (simp add: compute_statistics_def Let_def)








section \<open>The pipeline run\<close>

lemmas graph_defs = create_workflow_def add_node_def add_edge_def set_entry_point_def
  new_graph_def END_def recursion_limit_def

lemma invoke_create_workflow:
  "invoke create_workflow w init =
     (let (w0, m) = new_list w ([] @ list_at w (messages init));
          wc0 = (w0, init\<lparr>messages := m\<rparr>)
      in case superstep load_data_node wc0 of
           Inl e \<Rightarrow> Inl e
         | Inr wc1 \<Rightarrow>
             (case superstep cleaning_node wc1 of
                Inl e \<Rightarrow> Inl e
              | Inr wc2 \<Rightarrow>
                  (case superstep analysis_node wc2 of
                     Inl e \<Rightarrow> Inl e
                   | Inr wc3 \<Rightarrow> superstep visualization_node wc3)))"
  by (simp add: invoke_def graph_defs run_from.simps Let_def split: prod.splits sum.splits)


lemma list_append_frames [simp]:
  "frames (list_append w r x) = frames w" "files (list_append w r x) = files w"
  "pylists (list_append w r x) = (pylists w)[r := pylists w ! r @ [x]]"
  by (simp_all add: list_append_def)

lemma load_data_node_appends: "appends_one_message load_data_node"
  unfolding appends_one_message_def load_data_node_def by auto

lemma clean_data_frames:
  assumes "clean_data w df = Inr (w', res)"
  shows "length (frames w) \<le> length (frames w')"
    and "\<forall>a < length (frames w). frames w' ! a = frames w ! a"
    and "pylists w' = pylists w" and "files w' = files w"
    and "cr_cleaned_data res = Suc (length (frames w))"
proof -
  from clean_data_Inr [OF assms] obtain w2 where
    sc: "strip_columns w2 (Suc (length (frames w)))
           (select_dtypes Object (dropna (drop_duplicates (frame_at w df)))) = Inr w'" and
    fr: "frames w2 = frames w @ [drop_duplicates (frame_at w df),
                                 dropna (drop_duplicates (frame_at w df))]" and
    pl: "pylists w2 = pylists w" and fl: "files w2 = files w" and
    r: "cr_cleaned_data res = Suc (length (frames w))"
    by blast
  have "Suc (length (frames w)) < length (frames w2)" using fr by simp
  from strip_columns_frame [OF sc this]
  have len: "length (frames w') = length (frames w2)"
    and other: "\<forall>a. a \<noteq> Suc (length (frames w)) \<longrightarrow> frames w' ! a = frames w2 ! a"
    and pl': "pylists w' = pylists w2" and fl': "files w' = files w2"
    by simp_all
  show "length (frames w) \<le> length (frames w')" using len fr by simp
  show "\<forall>a < length (frames w). frames w' ! a = frames w ! a"
    using other fr by (simp add: nth_append)
  show "pylists w' = pylists w" using pl pl' by simp
  show "files w' = files w" using fl fl' by simp
  show "cr_cleaned_data res = Suc (length (frames w))" by (rule r)
qed

lemma cleaning_node_appends: "appends_one_message cleaning_node"
  unfolding appends_one_message_def
proof (intro allI impI)
  fix w state w' state'
  assume run: "cleaning_node w state = Inr (w', state')"
  then obtain w1 res where
    cd: "clean_data w (raw_data state) = Inr (w1, res)" and
    w': "w' = list_append w1 (messages state)
                (check_mark @ '' Data cleaned: ''
                   @ str_int (rows_removed (cr_metadata res)) @ '' rows removed'')" and
    st': "messages state' = messages state" "raw_data state' = raw_data state"
    by (auto simp: cleaning_node_def Let_def split: sum.splits)
  from clean_data_frames [OF cd] w' st'
  show "messages state' = messages state \<and> raw_data state' = raw_data state
        \<and> (\<exists>m. pylists w' = (pylists w)[messages state := pylists w ! messages state @ [m]])
        \<and> length (frames w) \<le> length (frames w')
        \<and> (\<forall>a < length (frames w). frames w' ! a = frames w ! a)"
    by auto
qed

lemma analysis_node_appends: "appends_one_message analysis_node"
  unfolding appends_one_message_def analysis_node_def
  by (auto simp: Let_def split: option.splits sum.splits)

lemma write_file_frames [simp]:
  "frames (write_file w p a) = frames w" "pylists (write_file w p a) = pylists w"
  by (simp_all add: write_file_def)

lemma distribution_plots_loop_frames:
  "distribution_plots_loop d df cols ws = Inr ws' \<Longrightarrow>
     frames (fst ws') = frames (fst ws) \<and> pylists (fst ws') = pylists (fst ws)"
proof (induction cols arbitrary: ws)
  case Nil
  then show ?case by simp
next
  case (Cons col cols)
  then show ?case by (auto simp: Let_def split: sum.splits)
qed

lemma create_distribution_plots_frames:
  "create_distribution_plots d w df = Inr (w', plots) \<Longrightarrow>
     frames w' = frames w \<and> pylists w' = pylists w"
  using distribution_plots_loop_frames [of d df "select_dtypes Number df" "(w, [])" "(w', plots)"]
  by (simp add: create_distribution_plots_def)

lemma create_correlation_heatmap_frames:
  "create_correlation_heatmap d w df = Inr (w', r) \<Longrightarrow>
     frames w' = frames w \<and> pylists w' = pylists w"
  by (auto simp: create_correlation_heatmap_def Let_def split: if_splits sum.splits)

lemma create_summary_report_frames:
  "create_summary_report d w stats ins = (w', p) \<Longrightarrow>
     frames w' = frames w \<and> pylists w' = pylists w"
  by (auto simp: create_summary_report_def Let_def)

lemma visualization_node_appends: "appends_one_message visualization_node"
  unfolding appends_one_message_def
proof (intro allI impI)
  fix w state w' state'
  assume run: "visualization_node w state = Inr (w', state')"
  then obtain df w1 plots w2 heatmap w3 path m where
    "create_distribution_plots default_output_dir w (frame_at w df) = Inr (w1, plots)"
    "create_correlation_heatmap default_output_dir w1 (frame_at w1 df) = Inr (w2, heatmap)"
    "create_summary_report default_output_dir w2 (statistics state) (insights state) = (w3, path)"
    "w' = list_append w3 (messages state) m"
    "messages state' = messages state" "raw_data state' = raw_data state"
    by (auto simp: visualization_node_def Let_def split: option.splits sum.splits prod.splits)
  then show "messages state' = messages state \<and> raw_data state' = raw_data state
        \<and> (\<exists>m. pylists w' = (pylists w)[messages state := pylists w ! messages state @ [m]])
        \<and> length (frames w) \<le> length (frames w')
        \<and> (\<forall>a < length (frames w). frames w' ! a = frames w ! a)"
    using create_distribution_plots_frames create_correlation_heatmap_frames
          create_summary_report_frames
    by (metis list_append_frames(1,3) order_refl)
qed


lemma superstep_effect:
  assumes ok: "appends_one_message f"
    and run: "superstep f (w, state) = Inr (w', state')"
    and valid: "messages state < length (pylists w)"
  shows "raw_data state' = raw_data state"
    and "messages state' < length (pylists w')"
    and "\<exists>m. list_at w' (messages state') = add_after_append (list_at w (messages state)) m"
    and "length (frames w) \<le> length (frames w')"
    and "\<forall>a < length (frames w). frames w' ! a = frames w ! a"
proof -
  from run obtain w1 returned where
    f: "f w state = Inr (w1, returned)" and
    wb: "write_back w1 state returned = (w', state')"
    by (auto simp: superstep_def split: sum.splits)
  from ok f obtain m where
    ms: "messages returned = messages state" and
    rd: "raw_data returned = raw_data state" and
    pl: "pylists w1 = (pylists w)[messages state := pylists w ! messages state @ [m]]" and
    len: "length (frames w) \<le> length (frames w1)" and
    fr: "\<forall>a < length (frames w). frames w1 ! a = frames w ! a"
    unfolding appends_one_message_def by blast
  have l1: "list_at w1 (messages state) = list_at w (messages state) @ [m]"
    using valid by (simp add: pl list_at_def)
  from wb have w': "w' = w1\<lparr>pylists := pylists w1
                          @ [list_at w1 (messages state) @ list_at w1 (messages returned)]\<rparr>"
    and st': "state' = returned\<lparr>messages := length (pylists w1)\<rparr>"
    by (auto simp: write_back_def new_list_def Let_def)
  show "raw_data state' = raw_data state" using st' rd by simp
  show "messages state' < length (pylists w')" using st' w' by simp
  have "list_at w' (messages state') = add_after_append (list_at w (messages state)) m"
    using l1 by (simp add: w' st' ms list_at_def add_after_append_def)
  then show "\<exists>m. list_at w' (messages state') = add_after_append (list_at w (messages state)) m"
    by blast
  show "length (frames w) \<le> length (frames w')" using len w' by simp
  show "\<forall>a < length (frames w). frames w' ! a = frames w ! a" using fr w' by simp
qed

lemma invoke_effect:
  assumes "invoke create_workflow w init = Inr (w', fin)"
  shows "raw_data fin = raw_data init"
    and "\<forall>a < length (frames w). frames w' ! a = frames w ! a"
    and "\<exists>m1 m2 m3 m4. list_at w' (messages fin) =
           add_after_append (add_after_append (add_after_append (add_after_append
             (list_at w (messages init)) m1) m2) m3) m4"
proof -
  let ?w0 = "w\<lparr>pylists := pylists w @ [list_at w (messages init)]\<rparr>"
  let ?s0 = "init\<lparr>messages := length (pylists w)\<rparr>"
  from assms obtain w1 s1 w2 s2 w3 s3 where
    1: "superstep load_data_node (?w0, ?s0) = Inr (w1, s1)" and
    2: "superstep cleaning_node (w1, s1) = Inr (w2, s2)" and
    3: "superstep analysis_node (w2, s2) = Inr (w3, s3)" and
    4: "superstep visualization_node (w3, s3) = Inr (w', fin)"
    by (auto simp: invoke_create_workflow new_list_def Let_def split: sum.splits)
  have v0: "messages ?s0 < length (pylists ?w0)" by simp
  have l0: "list_at ?w0 (messages ?s0) = list_at w (messages init)"
    by (simp add: list_at_def)
  note e1 = superstep_effect [OF load_data_node_appends 1 v0]
  note e2 = superstep_effect [OF cleaning_node_appends 2 e1(2)]
  note e3 = superstep_effect [OF analysis_node_appends 3 e2(2)]
  note e4 = superstep_effect [OF visualization_node_appends 4 e3(2)]
  show "raw_data fin = raw_data init"
    using e1(1) e2(1) e3(1) e4(1) by simp
  have "length (frames w) \<le> length (frames w1)" using e1(4) by simp
  moreover have "\<forall>a < length (frames w). frames w1 ! a = frames w ! a" using e1(5) by simp
  ultimately show "\<forall>a < length (frames w). frames w' ! a = frames w ! a"
    using e2(4,5) e3(4,5) e4(5) by (metis less_le_trans)
  from e1(3) e2(3) e3(3) e4(3) l0
  show "\<exists>m1 m2 m3 m4. list_at w' (messages fin) =
           add_after_append (add_after_append (add_after_append (add_after_append
             (list_at w (messages init)) m1) m2) m3) m4"
    by (metis)
qed

lemma length_add_after_append: "length (add_after_append xs m) = 2 * length xs + 2"
  by (simp add: add_after_append_def)

lemma invoke_log_length:
  assumes "invoke create_workflow w init = Inr (w', fin)"
  shows "length (list_at w' (messages fin)) = 16 * length (list_at w (messages init)) + 30"
proof -
  from invoke_effect(3) [OF assms] obtain m1 m2 m3 m4 where
    "list_at w' (messages fin) =
           add_after_append (add_after_append (add_after_append (add_after_append
             (list_at w (messages init)) m1) m2) m3) m4"
    by blast
  then show ?thesis by (simp add: length_add_after_append)
qed

lemmas node_defs = superstep_def write_back_def new_list_def list_at_def list_append_def
  load_data_node_def cleaning_node_def analysis_node_def visualization_node_def
  initial_state_def world_of_def default_output_dir_def

lemmas analyst_defs = compute_statistics_def generate_insights_def detect_outliers_def
  std_def series_min_def series_max_def validate_data_def isnull_sum_def

lemmas visualizer_defs = create_distribution_plots_def create_correlation_heatmap_def
  create_summary_report_def write_file_def path_join_def

lemma small_run:
  "map_sum id (\<lambda>r. list_at (fst r) (messages (snd r)))
     (invoke create_workflow (world_of frame_small) (initial_state 0 0)) = Inr small_run_log"
  by (simp add: invoke_create_workflow node_defs clean_data_def frame_small_def pandas_defs
                analyst_defs stats_defs text_defs visualizer_defs str_int_def
                small_run_log_def add_after_append_def Let_def)


lemma clean_data_frame_small: "clean_data (world_of frame_small) 0 = Inr frame_small_result"
  by (simp add: clean_data_def world_of_def frame_small_def frame_small_cleaned_def
                frame_small_result_def pandas_defs)

text \<open>
  C9. The claim: the stages run in the order load, clean, analyze, visualize, each appends
  one message, and after a complete run the log holds exactly four messages after the
  initial ones. The code on the table \<open>frame_small\<close>, started with an empty log: the stages
  do run in that order and each appends one message, but the log that \<open>invoke\<close> returns
  holds 30 messages, since after each stage the reducer of the \<open>messages\<close> key adds the
  list the stage returned to the list of the channel, and both are the list the stage
  appended to.
\<close>

theorem pipeline_log_thirty_messages:
  "map_sum id (\<lambda>r. list_at (fst r) (messages (snd r)))
     (invoke create_workflow (world_of frame_small) (initial_state 0 0)) = Inr small_run_log
   \<and> length small_run_log = 30
   \<and> take 3 small_run_log
       = [check_mark @ '' Data loaded successfully'',
          check_mark @ '' Data loaded successfully'',
          check_mark @ '' Data cleaned: 2 rows removed'']"
proof -
  have "length small_run_log = 30"
    by (simp add: small_run_log_def add_after_append_def)
  moreover have "take 3 small_run_log
       = [check_mark @ '' Data loaded successfully'',
          check_mark @ '' Data loaded successfully'',
          check_mark @ '' Data cleaned: 2 rows removed'']"
    by (simp add: small_run_log_def add_after_append_def)
  ultimately show ?thesis using small_run by simp
qed

text \<open>
  C10. \<open>clean_data\<close> does not change the frame it is given: the frame at the address
  passed in is the same after the call, and the cleaned frame is another object. After a
  complete run of the pipeline the \<open>raw_data\<close> entry of the state is the reference it was,
  and the frame it refers to is unchanged.
\<close>

theorem raw_data_unchanged:
  "(clean_data w df = Inr (w1, res) \<longrightarrow> df < length (frames w) \<longrightarrow>
      frame_at w1 df = frame_at w df \<and> cr_cleaned_data res \<noteq> df)
   \<and> (invoke create_workflow w init = Inr (w', fin) \<longrightarrow> raw_data init < length (frames w) \<longrightarrow>
      raw_data fin = raw_data init \<and> frame_at w' (raw_data fin) = frame_at w (raw_data init))"
proof (intro conjI impI)
  assume cd: "clean_data w df = Inr (w1, res)" and v: "df < length (frames w)"
  from clean_data_frames(2) [OF cd] v show "frame_at w1 df = frame_at w df"
    by (simp add: frame_at_def)
  from clean_data_frames(5) [OF cd] v show "cr_cleaned_data res \<noteq> df" by simp
next
  assume run: "invoke create_workflow w init = Inr (w', fin)"
    and v: "raw_data init < length (frames w)"
  show "raw_data fin = raw_data init" using invoke_effect(1) [OF run] .
  then show "frame_at w' (raw_data fin) = frame_at w (raw_data init)"
    using invoke_effect(2) [OF run] v by (simp add: frame_at_def)
qed

theorem raw_data_unchanged_witness:
  "clean_data (world_of frame_small) 0 = Inr frame_small_result
   \<and> 0 < length (frames (world_of frame_small))
   \<and> frame_at (fst frame_small_result) 0 = frame_small
   \<and> cr_cleaned_data (snd frame_small_result) \<noteq> 0
   \<and> (\<exists>w' fin. invoke create_workflow (world_of frame_small) (initial_state 0 0) = Inr (w', fin)
          \<and> raw_data (initial_state 0 0) < length (frames (world_of frame_small))
          \<and> raw_data fin = 0
          \<and> frame_at w' (raw_data fin) = frame_small)"
proof -
  have cd: "clean_data (world_of frame_small) 0
              = Inr (fst frame_small_result, snd frame_small_result)"
    using clean_data_frame_small by simp
  have v: "0 < length (frames (world_of frame_small))"
    by (simp add: world_of_def)
  have f0: "frame_at (world_of frame_small) 0 = frame_small"
    by (simp add: world_of_def frame_at_def)
  have r0: "raw_data (initial_state 0 0) = 0"
    by (simp add: initial_state_def)
  obtain w' fin where
    run: "invoke create_workflow (world_of frame_small) (initial_state 0 0) = Inr (w', fin)"
    using small_run
    by (cases "invoke create_workflow (world_of frame_small) (initial_state 0 0)") auto
  note t1 = raw_data_unchanged [of "world_of frame_small" 0 "fst frame_small_result"
                                  "snd frame_small_result" "initial_state 0 0" w' fin]
  from t1 cd v have a: "frame_at (fst frame_small_result) 0 = frame_at (world_of frame_small) 0"
    and b: "cr_cleaned_data (snd frame_small_result) \<noteq> 0"
    by blast+
  from t1 run v r0 have c: "raw_data fin = 0"
    and d: "frame_at w' (raw_data fin) = frame_at (world_of frame_small) 0"
    by auto
  from clean_data_frame_small v a b run r0 c d f0 show ?thesis
    by (intro conjI exI [of _ w'] exI [of _ fin]) simp_all
qed

end
